theory Spec2Isabelle
  imports Main "HOL-Library.Char_ord" "HOL-Library.List_Lexorder"
begin

section \<open>Python values\<close>

text \<open>
  The client is dynamically typed: \<open>point.py\<close> and \<open>client.py\<close> decide what to do with a
  value by \<open>isinstance\<close> and by comparison with \<open>None\<close>. The values that reach those tests
  are modelled by one datatype.

  A Python \<open>str\<close> is modelled by the \<open>string\<close> of its UTF-8 bytes: the translation tables
  below replace ASCII characters only, and the order of strings by code point is the
  lexicographic order of their UTF-8 bytes, so \<open>str.translate\<close>, \<open>sorted\<close> and
  \<open>encode("utf-8")\<close> (then the identity) agree with Python on that representation.

  A finite \<open>float\<close> is represented by the text that \<open>str\<close> gives for it. Python's
  \<open>str\<close> is injective on finite floats (\<open>float(str(x)) == x\<close>), so the text identifies
  the float; nothing in the repository computes with floats, it only tests them with
  \<open>math.isfinite\<close> and prints them.
\<close>

datatype pyfloat = Finite string | PosInf | NegInf | NaN

text \<open>
  A \<open>datetime\<close>: the reading of its calendar fields as microseconds since
  1970-01-01 00:00:00 on the same wall clock, and its zone offset in microseconds
  (\<open>None\<close> for a naive datetime, whose \<open>tzinfo\<close> is \<open>None\<close>).
\<close>

record datetime =
  wall_micros :: int
  tzinfo :: "int option"

datatype pyval =
    PNone
  | PStr string
  | PBool bool
  | PFloat pyfloat
  | PInt int
  | PList "pyval list"
  | PTuple "pyval list"
  | PDict "(string \<times> pyval) list"
  | PDatetime datetime

datatype pyerror =
    ValueError pyval
  | AttributeError
  | AssertionError
  | TypeError
  | ParserError
  | KeyError
  | JSONDecodeError
  | HTTPException int string
  | NonStringKey

text \<open>
  \<open>isinstance\<close>. In Python \<open>bool\<close> is a subclass of \<open>int\<close>, so \<open>isinstance(True, int)\<close>
  holds.
\<close>

fun isinstance_str :: "pyval \<Rightarrow> bool" where
  "isinstance_str (PStr s) = True"
| "isinstance_str v = False"

fun isinstance_bool :: "pyval \<Rightarrow> bool" where
  "isinstance_bool (PBool b) = True"
| "isinstance_bool v = False"

fun isinstance_float :: "pyval \<Rightarrow> bool" where
  "isinstance_float (PFloat f) = True"
| "isinstance_float v = False"

fun isinstance_int :: "pyval \<Rightarrow> bool" where
  "isinstance_int (PInt i) = True"
| "isinstance_int (PBool b) = True"
| "isinstance_int v = False"

fun isinstance_list_tuple :: "pyval \<Rightarrow> bool" where
  "isinstance_list_tuple (PList xs) = True"
| "isinstance_list_tuple (PTuple xs) = True"
| "isinstance_list_tuple v = False"

fun isinstance_datetime :: "pyval \<Rightarrow> bool" where
  "isinstance_datetime (PDatetime d) = True"
| "isinstance_datetime v = False"

text \<open>The string inside a \<open>str\<close> value, the items of a list or tuple.\<close>

fun the_str :: "pyval \<Rightarrow> string" where
  "the_str (PStr s) = s"
| "the_str v = []"

fun the_items :: "pyval \<Rightarrow> pyval list" where
  "the_items (PList xs) = xs"
| "the_items (PTuple xs) = xs"
| "the_items v = []"

text \<open>The truth value of a value, as \<open>if v:\<close> tests it.\<close>

fun truthy :: "pyval \<Rightarrow> bool" where
  "truthy PNone = False"
| "truthy (PStr s) = (s \<noteq> [])"
| "truthy (PBool b) = b"
| "truthy (PFloat f) = (f \<noteq> Finite ''0.0'' \<and> f \<noteq> Finite ''-0.0'')"
| "truthy (PInt i) = (i \<noteq> 0)"
| "truthy (PList xs) = (xs \<noteq> [])"
| "truthy (PTuple xs) = (xs \<noteq> [])"
| "truthy (PDict xs) = (xs \<noteq> [])"
| "truthy (PDatetime d) = True"

text \<open>\<open>math.isfinite\<close> on a float.\<close>

fun isfinite :: "pyfloat \<Rightarrow> bool" where
  "isfinite (Finite s) = True"
| "isfinite f = False"

subsection \<open>\<open>str\<close> of a value\<close>

definition digit_char :: "nat \<Rightarrow> char" where
  "digit_char d = char_of (48 + d)"

function str_nat :: "nat \<Rightarrow> string" where
  "str_nat n = (if n < 10 then [digit_char n] else str_nat (n div 10) @ [digit_char (n mod 10)])"
  by pat_completeness auto
termination
  by (relation "measure id") auto

declare str_nat.simps [simp del]

definition str_int :: "int \<Rightarrow> string" where
  "str_int i = (if i < 0 then CHR ''-'' # str_nat (nat (- i)) else str_nat (nat i))"

text \<open>
  \<open>str(v)\<close>, which is also what an f-string puts for \<open>{v}\<close>. The text of a list, a tuple,
  a dictionary or a datetime is not modelled: no function below prints one.
\<close>

fun py_str :: "pyval \<Rightarrow> string" where
  "py_str PNone = ''None''"
| "py_str (PStr s) = s"
| "py_str (PBool b) = (if b then ''True'' else ''False'')"
| "py_str (PFloat (Finite s)) = s"
| "py_str (PFloat PosInf) = ''inf''"
| "py_str (PFloat NegInf) = ''-inf''"
| "py_str (PFloat NaN) = ''nan''"
| "py_str (PInt i) = str_int i"

text \<open>\<open>str.lower\<close> on ASCII text (it is applied to \<open>True\<close> and \<open>False\<close> only).\<close>

definition char_lower :: "char \<Rightarrow> char" where
  "char_lower c = (let n = (of_char c :: nat) in if 65 \<le> n \<and> n \<le> 90 then char_of (n + 32) else c)"

definition lower :: "string \<Rightarrow> string" where
  "lower s = map char_lower s"

subsection \<open>Dictionaries\<close>

text \<open>
  A \<open>dict\<close> keeps its keys in insertion order; an assignment to a key that is present
  replaces the value in place. The dictionaries of this model are keyed by strings.
\<close>

type_synonym dict = "(string \<times> pyval) list"

fun dict_set :: "dict \<Rightarrow> string \<Rightarrow> pyval \<Rightarrow> dict" where
  "dict_set [] k v = [(k, v)]"
| "dict_set ((k', v') # d) k v = (if k' = k then (k, v) # d else (k', v') # dict_set d k v)"

definition dict_get :: "dict \<Rightarrow> string \<Rightarrow> pyval option" where
  "dict_get d k = map_of d k"

text \<open>\<open>d.update(e)\<close>: every item of \<open>e\<close> is assigned, in order.\<close>

definition dict_update :: "dict \<Rightarrow> dict \<Rightarrow> dict" where
  "dict_update d e = foldl (\<lambda>acc (k, v). dict_set acc k v) d e"

section \<open>point.py\<close>

subsection \<open>Escaping tables\<close>

definition backslash :: char where
  "backslash = CHR 0x5C"

definition escape_measurement :: "char \<rightharpoonup> string" where
  "escape_measurement = map_of
     [(CHR '','', [backslash, CHR '','']),
      (CHR '' '', [backslash, CHR '' '']),
      (CHR 0x0A, [backslash, CHR ''n'']),
      (CHR 0x09, [backslash, CHR ''t'']),
      (CHR 0x0D, [backslash, CHR ''r''])]"

definition escape_field_value :: "char \<rightharpoonup> string" where
  "escape_field_value = map_of
     [(CHR 0x22, [backslash, CHR 0x22]),
      (backslash, [backslash, backslash])]"

definition escape_name :: "char \<rightharpoonup> string" where
  "escape_name = map_of
     [(CHR '','', [backslash, CHR '','']),
      (CHR '' '', [backslash, CHR '' '']),
      (CHR ''='', [backslash, CHR ''='']),
      (CHR 0x0A, [backslash, CHR ''n'']),
      (CHR 0x09, [backslash, CHR ''t'']),
      (CHR 0x0D, [backslash, CHR ''r''])]"

text \<open>\<open>s.translate(table)\<close>: a character of the table is replaced, any other is kept.\<close>

definition translate :: "(char \<rightharpoonup> string) \<Rightarrow> string \<Rightarrow> string" where
  "translate table s = concat (map (\<lambda>c. case table c of None \<Rightarrow> [c] | Some r \<Rightarrow> r) s)"

text \<open>\<open>v.translate(table)\<close> on a value: only a \<open>str\<close> has the method.\<close>

definition py_translate :: "(char \<rightharpoonup> string) \<Rightarrow> pyval \<Rightarrow> pyerror + string" where
  "py_translate table v =
     (if isinstance_str v then Inr (translate table (the_str v)) else Inl AttributeError)"

subsection \<open>Timestamps\<close>

text \<open>
  \<open>EPOCH = UTC.localize(datetime.utcfromtimestamp(0))\<close>, and \<open>UTC.localize\<close>, which gives a
  naive datetime the offset 0.
\<close>

definition EPOCH :: datetime where
  "EPOCH = \<lparr>wall_micros = 0, tzinfo = Some 0\<rparr>"

definition localize_utc :: "datetime \<Rightarrow> datetime" where
  "localize_utc d = d\<lparr>tzinfo := Some 0\<rparr>"

text \<open>
  The difference of two aware datetimes is the difference of their UTC instants, as a
  \<open>timedelta\<close> normalised to \<open>0 \<le> seconds < 86400\<close> and \<open>0 \<le> microseconds < 10^6\<close>.
\<close>

record timedelta =
  days :: int
  seconds :: int
  microseconds :: int

definition utc_micros :: "datetime \<Rightarrow> int" where
  "utc_micros d = wall_micros d - (case tzinfo d of None \<Rightarrow> 0 | Some off \<Rightarrow> off)"

definition timedelta_of_micros :: "int \<Rightarrow> timedelta" where
  "timedelta_of_micros t =
     \<lparr>days = t div 86400000000,
      seconds = (t mod 86400000000) div 1000000,
      microseconds = t mod 1000000\<rparr>"

definition datetime_sub :: "datetime \<Rightarrow> datetime \<Rightarrow> timedelta" where
  "datetime_sub a b = timedelta_of_micros (utc_micros a - utc_micros b)"

definition to_nanos :: "datetime \<Rightarrow> int" where
  "to_nanos timestamp =
     (let delta = datetime_sub timestamp EPOCH;
          nanos_in_days = days delta * 86400 * 10 ^ 9;
          nanos_in_seconds = seconds delta * 10 ^ 9;
          nanos_in_micros = microseconds delta * 10 ^ 3
      in nanos_in_days + nanos_in_seconds + nanos_in_micros)"

text \<open>
  \<open>_convert_timestamp\<close>. The parser of \<open>dateutil\<close> is not part of the repository: it is
  the parameter \<open>parse\<close>, which returns a datetime or raises.
\<close>

definition convert_timestamp :: "(string \<Rightarrow> pyerror + datetime) \<Rightarrow> pyval \<Rightarrow> pyerror + pyval" where
  "convert_timestamp parse timestamp =
     (if timestamp = PNone then Inr (PStr [])
      else if isinstance_int timestamp then Inr timestamp
      else
        case (if isinstance_str timestamp
              then (case parse (the_str timestamp) of Inl e \<Rightarrow> Inl e | Inr d \<Rightarrow> Inr (PDatetime d))
              else Inr timestamp) of
          Inl e \<Rightarrow> Inl e
        | Inr ts \<Rightarrow>
            (case ts of
               PDatetime d \<Rightarrow>
                 Inr (PInt (to_nanos (if tzinfo d = None then localize_utc d else d)))
             | _ \<Rightarrow> Inl (ValueError ts)))"

subsection \<open>Point\<close>

record point =
  p_tags :: dict
  p_fields :: dict
  p_measurement :: pyval
  p_time :: pyval
  p_write_precision :: pyval
  p_field_types :: dict

definition Point :: "pyval \<Rightarrow> point" where
  "Point measurement =
     \<lparr>p_tags = [], p_fields = [], p_measurement = measurement, p_time = PNone,
      p_write_precision = PStr ''ns'', p_field_types = []\<rparr>"

definition get_precision :: "point \<Rightarrow> pyval" where
  "get_precision p = p_write_precision p"

definition time :: "point \<Rightarrow> pyval \<Rightarrow> pyval \<Rightarrow> point" where
  "time p t write_precision = p\<lparr>p_write_precision := write_precision, p_time := t\<rparr>"

text \<open>
  The loop \<open>for k, v in zip(key, value): d[k] = v\<close> of \<open>tag\<close> and \<open>field\<close>. A list or a
  dictionary is not hashable, so it cannot be a key. A key of another type than \<open>str\<close> is outside the
  string-keyed dictionaries of this model: the loop then stops with \<open>NonStringKey\<close>, which
  stands for no Python exception.
\<close>

fun set_items :: "dict \<Rightarrow> (pyval \<times> pyval) list \<Rightarrow> pyerror + dict" where
  "set_items d [] = Inr d"
| "set_items d ((k, v) # kvs) =
     (case k of
        PStr s \<Rightarrow> set_items (dict_set d s v) kvs
      | PList xs \<Rightarrow> Inl TypeError
      | PDict xs \<Rightarrow> Inl TypeError
      | _ \<Rightarrow> Inl NonStringKey)"

definition tag :: "point \<Rightarrow> pyval \<Rightarrow> pyval \<Rightarrow> pyerror + point" where
  "tag p key value =
     (let p1 = (if isinstance_str key \<and> isinstance_str value
                then p\<lparr>p_tags := dict_set (p_tags p) (the_str key) value\<rparr> else p)
      in if isinstance_list_tuple key \<and> isinstance_list_tuple value then
           (if length (the_items key) \<noteq> length (the_items value) then Inl AssertionError
            else case set_items (p_tags p1) (zip (the_items key) (the_items value)) of
                   Inl e \<Rightarrow> Inl e
                 | Inr d \<Rightarrow> Inr (p1\<lparr>p_tags := d\<rparr>))
         else Inr p1)"

definition field :: "point \<Rightarrow> pyval \<Rightarrow> pyval \<Rightarrow> pyerror + point" where
  "field p fld value =
     (let p1 = (if isinstance_str fld \<and>
                   (isinstance_str value \<or> isinstance_float value \<or>
                    isinstance_bool value \<or> isinstance_int value)
                then p\<lparr>p_fields := dict_set (p_fields p) (the_str fld) value\<rparr> else p)
      in if isinstance_list_tuple fld \<and> isinstance_list_tuple value then
           (if length (the_items fld) \<noteq> length (the_items value) then Inl AssertionError
            else case set_items (p_fields p1) (zip (the_items fld) (the_items value)) of
                   Inl e \<Rightarrow> Inl e
                 | Inr d \<Rightarrow> Inr (p1\<lparr>p_fields := d\<rparr>))
         else Inr p1)"

text \<open>
  \<open>sorted(self._tags.items())\<close>: the items are pairs with distinct keys, so their order
  is the order of the keys.
\<close>

definition sorted_items :: "dict \<Rightarrow> dict" where
  "sorted_items d = sort_key fst d"

text \<open>The tag loop of \<open>to_line_protocol\<close>, with the text accumulated so far.\<close>

fun tags_loop :: "dict \<Rightarrow> string \<Rightarrow> pyerror + string" where
  "tags_loop [] tags = Inr tags"
| "tags_loop ((key, value) # rest) tags =
     (if value = PNone then tags_loop rest tags
      else
        let tg = translate escape_name key in
        case py_translate escape_name value of
          Inl e \<Rightarrow> Inl e
        | Inr v \<Rightarrow>
            if tg \<noteq> [] \<and> v \<noteq> [] then tags_loop rest (tags @ '','' @ tg @ ''='' @ v)
            else tags_loop rest tags)"

text \<open>The field loop of \<open>to_line_protocol\<close>; a value of no listed type adds nothing.\<close>

fun fields_loop :: "dict \<Rightarrow> string \<Rightarrow> string" where
  "fields_loop [] fieldtext = fieldtext"
| "fields_loop ((key, value) # rest) fieldtext =
     (if value = PNone then fields_loop rest fieldtext
      else
        let fld = translate escape_name key in
        if isinstance_str value then
          fields_loop rest
            (fieldtext @ '','' @ fld @ ''='' @ [CHR 0x22] @
             translate escape_field_value (the_str value) @ [CHR 0x22])
        else if isinstance_bool value then
          fields_loop rest (fieldtext @ '','' @ fld @ ''='' @ lower (py_str value))
        else if isinstance_float value then
          (if \<not> (case value of PFloat f \<Rightarrow> isfinite f | _ \<Rightarrow> False) then fields_loop rest fieldtext
           else fields_loop rest (fieldtext @ '','' @ fld @ ''='' @ py_str value))
        else if isinstance_int value then
          fields_loop rest (fieldtext @ '','' @ fld @ ''='' @ py_str value @ ''i'')
        else fields_loop rest fieldtext)"

definition to_line_protocol :: "(string \<Rightarrow> pyerror + datetime) \<Rightarrow> point \<Rightarrow> pyerror + string" where
  "to_line_protocol parse p =
     (case py_translate escape_measurement (p_measurement p) of
        Inl e \<Rightarrow> Inl e
      | Inr measurement \<Rightarrow>
          (case tags_loop (sorted_items (p_tags p)) [] of
             Inl e \<Rightarrow> Inl e
           | Inr tags \<Rightarrow>
               let fieldtext = fields_loop (p_fields p) [] in
               if fieldtext = [] then Inr []
               else
                 let fields1 = tl fieldtext in
                 (case convert_timestamp parse (p_time p) of
                    Inl e \<Rightarrow> Inl e
                  | Inr t \<Rightarrow>
                      let time_format = (if t \<noteq> PStr [] then '' '' @ py_str t else [])
                      in Inr (measurement @ tags @ '' '' @ fields1 @ time_format))))"

section \<open>client.py\<close>

text \<open>
  The HTTP transport is outside the repository. A session is modelled by the function that
  answers a request (or raises) and by the list of the requests it was given, oldest
  first. A response carries what the client reads of it: the status code, the raw
  content, the header lookup and the result of \<open>response.json()\<close>.
\<close>

record http_request =
  rq_method :: string
  rq_url :: string
  rq_auth :: "string \<times> string"
  rq_data :: "string option"
  rq_headers :: dict
  rq_params :: dict

record response =
  status_code :: int
  content :: string
  rs_headers :: "string \<rightharpoonup> string"
  rs_json :: "pyerror + pyval"

record session =
  respond :: "http_request \<Rightarrow> pyerror + response"
  sent :: "http_request list"

text \<open>
  The client object. \<open>c_session = None\<close> says that the attribute \<open>_session\<close> was never
  assigned; a read of it then raises \<open>AttributeError\<close>.
\<close>

record client =
  c_host :: string
  c_port :: int
  c_username :: string
  c_password :: string
  c_database :: pyval
  c_baseurl :: string
  c_gzip :: bool
  c_session :: "session option"
  c_headers :: dict
  c_write_headers :: dict

text \<open>
  \<open>OpenGeminiClient.__init__\<close>. The first argument is the session that the call
  \<open>requests.Session()\<close> returns.
\<close>

definition OpenGeminiClient ::
  "session \<Rightarrow> string \<Rightarrow> int \<Rightarrow> string \<Rightarrow> string \<Rightarrow> pyval \<Rightarrow> session option \<Rightarrow> bool \<Rightarrow> client" where
  "OpenGeminiClient new_session host port username password database session gzip =
     \<lparr>c_host = host, c_port = port, c_username = username, c_password = password,
      c_database = database,
      c_baseurl = ''http://'' @ host @ '':'' @ str_int port,
      c_gzip = gzip,
      c_session = (case session of None \<Rightarrow> Some new_session | Some s \<Rightarrow> None),
      c_headers = [(''Content-type'', PStr ''application/json''), (''Accept'', PStr ''text/plain'')],
      c_write_headers = [(''Content-type'', PStr ''application/octet-stream''),
                         (''Accept'', PStr ''text/plain'')]\<rparr>"

text \<open>
  The \<open>header\<close> argument of \<open>request\<close>: absent, the client's own \<open>_write_headers\<close>
  dictionary (as \<open>write\<close> passes it, by reference), or a dictionary of the caller.
\<close>

datatype header_arg = HeaderNone | HeaderWrite | HeaderGiven dict

text \<open>
  \<open>request\<close>. \<open>header.update\<close> changes the dictionary that \<open>header\<close> refers to, so with
  gzip enabled the client's own header dictionary is changed; the client is returned with
  it and with the session's record of the request. \<open>compress\<close> is \<open>gzip.compress\<close>.
\<close>

definition request ::
  "(string \<Rightarrow> string) \<Rightarrow> client \<Rightarrow> string \<Rightarrow> string \<Rightarrow> string option \<Rightarrow> dict option \<Rightarrow> int \<Rightarrow>
   header_arg \<Rightarrow> (pyerror + response) \<times> client" where
  "request compress c url method data params expected_response_code header_arg =
     (let header = (case header_arg of HeaderNone \<Rightarrow> c_headers c | HeaderWrite \<Rightarrow> c_write_headers c
                    | HeaderGiven h \<Rightarrow> h);
          params1 = (case params of None \<Rightarrow> [] | Some ps \<Rightarrow> ps);
          url1 = c_baseurl c @ ''/'' @ url;
          header1 = (if c_gzip c
                     then dict_update header [(''Accept-Encoding'', PStr ''gzip''),
                                              (''Content-Encoding'', PStr ''gzip'')]
                     else header);
          data1 = (if c_gzip c then (case data of None \<Rightarrow> None | Some d \<Rightarrow> Some (compress d))
                   else data);
          c1 = (case header_arg of HeaderNone \<Rightarrow> c\<lparr>c_headers := header1\<rparr>
                | HeaderWrite \<Rightarrow> c\<lparr>c_write_headers := header1\<rparr>
                | HeaderGiven h \<Rightarrow> c)
      in case c_session c1 of
           None \<Rightarrow> (Inl AttributeError, c1)
         | Some s \<Rightarrow>
             let rq = \<lparr>rq_method = method, rq_url = url1,
                       rq_auth = (c_username c1, c_password c1),
                       rq_data = data1, rq_headers = header1, rq_params = params1\<rparr>;
                 c2 = c1\<lparr>c_session := Some (s\<lparr>sent := sent s @ [rq]\<rparr>)\<rparr>
             in (case respond s rq of
                   Inl e \<Rightarrow> (Inl e, c2)
                 | Inr rs \<Rightarrow>
                     if status_code rs = expected_response_code then (Inr rs, c2)
                     else (Inl (HTTPException (status_code rs) (content rs)), c2)))"

text \<open>
  The parameters that \<open>query\<close> builds before it calls \<open>request\<close>. \<open>loads\<close> and \<open>dumps\<close>
  are \<open>json.loads\<close> and \<open>json.dumps\<close>; \<open>json.loads\<close> accepts text only, and only a
  dictionary has \<open>update\<close>.
\<close>

definition query_params ::
  "(string \<Rightarrow> pyerror + pyval) \<Rightarrow> (dict \<Rightarrow> pyerror + string) \<Rightarrow> client \<Rightarrow> string \<Rightarrow> dict option \<Rightarrow>
   bool \<Rightarrow> int \<Rightarrow> pyval \<Rightarrow> dict option \<Rightarrow> pyerror + dict" where
  "query_params loads dumps c query params chunked chunk_size epoch bind_params =
     (let params1 = (case params of None \<Rightarrow> [] | Some ps \<Rightarrow> ps);
          params2 = (if epoch \<noteq> PNone then dict_set params1 ''epoch'' epoch else params1);
          params3 = (if chunked
                     then (let ps = dict_set params2 ''chunked'' (PStr ''true'')
                           in if chunk_size > 0 then dict_set ps ''chunk_size'' (PInt chunk_size)
                              else ps)
                     else params2);
          params4 =
            (case bind_params of
               None \<Rightarrow> Inr params3
             | Some bp \<Rightarrow>
                 (case (case dict_get params3 ''params'' of
                          None \<Rightarrow> loads ''{}''
                        | Some v \<Rightarrow> if isinstance_str v then loads (the_str v) else Inl TypeError) of
                    Inl e \<Rightarrow> Inl e
                  | Inr (PDict params_dict) \<Rightarrow>
                      (case dumps (dict_update params_dict bp) of
                         Inl e \<Rightarrow> Inl e
                       | Inr text \<Rightarrow> Inr (dict_set params3 ''params'' (PStr text)))
                  | Inr other \<Rightarrow> Inl AttributeError))
      in case params4 of
           Inl e \<Rightarrow> Inl e
         | Inr ps \<Rightarrow>
             let ps1 = dict_set ps ''q'' (PStr query)
             in if (case dict_get ps1 ''db'' of None \<Rightarrow> True | Some v \<Rightarrow> v = PNone)
                then Inr (dict_set ps1 ''db'' (c_database c))
                else Inr ps1)"

definition query ::
  "(string \<Rightarrow> string) \<Rightarrow> (string \<Rightarrow> pyerror + pyval) \<Rightarrow> (dict \<Rightarrow> pyerror + string) \<Rightarrow> client \<Rightarrow>
   string \<Rightarrow> dict option \<Rightarrow> bool \<Rightarrow> int \<Rightarrow> pyval \<Rightarrow> dict option \<Rightarrow> string \<Rightarrow>
   (pyerror + pyval) \<times> client" where
  "query compress loads dumps c qry params chunked chunk_size epoch bind_params method =
     (case query_params loads dumps c qry params chunked chunk_size epoch bind_params of
        Inl e \<Rightarrow> (Inl e, c)
      | Inr ps \<Rightarrow>
          (case request compress c ''query'' method None (Some ps) 200 HeaderNone of
             (Inl e, c1) \<Rightarrow> (Inl e, c1)
           | (Inr rs, c1) \<Rightarrow> (rs_json rs, c1)))"

text \<open>
  \<open>write\<close> (named \<open>write_line\<close> here, \<open>write\<close> being a keyword): the body is the line
  followed by a newline, as \<open>join\<close> of the one line gives it.
\<close>

definition write_line :: "(string \<Rightarrow> string) \<Rightarrow> client \<Rightarrow> string \<Rightarrow> pyval \<Rightarrow> (pyerror + response) \<times> client" where
  "write_line compress c pnt precision =
     (let params = [(''db'', c_database c), (''precision'', precision)];
          data = pnt @ [CHR 0x0A]
      in request compress c ''write'' ''POST'' (Some data) (Some params) 204 HeaderWrite)"

definition switch_database :: "client \<Rightarrow> pyval \<Rightarrow> client" where
  "switch_database c database = c\<lparr>c_database := database\<rparr>"

definition switch_user :: "client \<Rightarrow> string \<Rightarrow> string \<Rightarrow> client" where
  "switch_user c username password = c\<lparr>c_username := username, c_password := password\<rparr>"

definition ping :: "(string \<Rightarrow> string) \<Rightarrow> client \<Rightarrow> (pyerror + string) \<times> client" where
  "ping compress c =
     (case request compress c ''ping'' ''GET'' None None 204 HeaderNone of
        (Inl e, c1) \<Rightarrow> (Inl e, c1)
      | (Inr rs, c1) \<Rightarrow>
          (case rs_headers rs ''X-Geminidb-Version'' of
             None \<Rightarrow> (Inl KeyError, c1)
           | Some v \<Rightarrow> (Inr v, c1)))"

subsection \<open>Statement helpers\<close>

text \<open>
  Each helper builds one statement text and passes it to \<open>query\<close>. The text is given by a
  function of its own, named after the helper, so that it can be read off; the helper
  itself is the call of \<open>query\<close> on it. A name that is formatted into an f-string and
  nothing else is a \<open>string\<close>; an argument on which \<open>translate\<close> is called, or which is
  tested, is a value. The argument \<open>default\<close> is written \<open>dflt\<close>.
\<close>

definition quote :: string where
  "quote = [CHR 0x22]"

definition create_database_statement :: "string \<Rightarrow> string" where
  "create_database_statement dbname = ''CREATE DATABASE '' @ dbname"

definition create_database ::
  "(string \<Rightarrow> string) \<Rightarrow> (string \<Rightarrow> pyerror + pyval) \<Rightarrow> (dict \<Rightarrow> pyerror + string) \<Rightarrow> client \<Rightarrow>
   string \<Rightarrow> (pyerror + pyval) \<times> client" where
  "create_database compress loads dumps c dbname =
     query compress loads dumps c (create_database_statement dbname) None False 0 PNone None ''POST''"

definition drop_database_statement :: "string \<Rightarrow> string" where
  "drop_database_statement dbname = ''DROP DATABASE '' @ dbname"

definition drop_database ::
  "(string \<Rightarrow> string) \<Rightarrow> (string \<Rightarrow> pyerror + pyval) \<Rightarrow> (dict \<Rightarrow> pyerror + string) \<Rightarrow> client \<Rightarrow>
   string \<Rightarrow> (pyerror + pyval) \<times> client" where
  "drop_database compress loads dumps c dbname =
     query compress loads dumps c (drop_database_statement dbname) None False 0 PNone None ''POST''"

definition show_database ::
  "(string \<Rightarrow> string) \<Rightarrow> (string \<Rightarrow> pyerror + pyval) \<Rightarrow> (dict \<Rightarrow> pyerror + string) \<Rightarrow> client \<Rightarrow>
   (pyerror + pyval) \<times> client" where
  "show_database compress loads dumps c =
     query compress loads dumps c ''SHOW DATABASES'' None False 0 PNone None ''GET''"

text \<open>
  \<open>create_retention_policy\<close>. The clause for the shard duration is added by
  \<open>query += ' SHARD DURATION {shard_duration}'\<close>, a plain string and not an f-string: the
  text between the braces is kept as it is.
\<close>

definition create_retention_policy_statement ::
  "client \<Rightarrow> pyval \<Rightarrow> pyval \<Rightarrow> pyval \<Rightarrow> pyval \<Rightarrow> pyval \<Rightarrow> pyval \<Rightarrow> pyerror + string" where
  "create_retention_policy_statement c retention_policy_name replication duration database
       dflt shard_duration =
     (let database1 = (if database = PNone then c_database c else database)
      in case py_translate escape_name retention_policy_name of
           Inl e \<Rightarrow> Inl e
         | Inr rp \<Rightarrow>
             (case py_translate escape_name database1 of
                Inl e \<Rightarrow> Inl e
              | Inr db \<Rightarrow>
                  let query0 = ''CREATE RETENTION POLICY '' @ quote @ rp @ quote @ '' '' @
                               ''ON '' @ quote @ db @ quote @ '' '' @
                               ''DURATION '' @ py_str duration @ '' '' @
                               ''REPLICATION '' @ py_str replication;
                      query1 = (if truthy shard_duration
                                then query0 @ '' SHARD DURATION {shard_duration}'' else query0);
                      query2 = (if truthy dflt then query1 @ '' DEFAULT'' else query1)
                  in Inr query2))"

definition create_retention_policy ::
  "(string \<Rightarrow> string) \<Rightarrow> (string \<Rightarrow> pyerror + pyval) \<Rightarrow> (dict \<Rightarrow> pyerror + string) \<Rightarrow> client \<Rightarrow>
   pyval \<Rightarrow> pyval \<Rightarrow> pyval \<Rightarrow> pyval \<Rightarrow> pyval \<Rightarrow> pyval \<Rightarrow> (pyerror + pyval) \<times> client" where
  "create_retention_policy compress loads dumps c retention_policy_name replication duration
       database dflt shard_duration =
     (case create_retention_policy_statement c retention_policy_name replication duration
             database dflt shard_duration of
        Inl e \<Rightarrow> (Inl e, c)
      | Inr q \<Rightarrow> query compress loads dumps c q None False 0 PNone None ''POST'')"

definition alter_retention_policy_statement ::
  "client \<Rightarrow> pyval \<Rightarrow> pyval \<Rightarrow> pyval \<Rightarrow> pyval \<Rightarrow> pyval \<Rightarrow> pyval \<Rightarrow> pyerror + string" where
  "alter_retention_policy_statement c retention_policy_name database duration replication
       dflt shard_duration =
     (let database1 = (if database = PNone then c_database c else database)
      in case py_translate escape_name retention_policy_name of
           Inl e \<Rightarrow> Inl e
         | Inr rp \<Rightarrow>
             (case py_translate escape_name database1 of
                Inl e \<Rightarrow> Inl e
              | Inr db \<Rightarrow>
                  let query0 = ''ALTER RETENTION POLICY '' @ quote @ rp @ quote @ '' '' @
                               ''ON '' @ quote @ db @ quote;
                      query1 = (if truthy duration
                                then query0 @ '' DURATION '' @ py_str duration else query0);
                      query2 = (if truthy shard_duration
                                then query1 @ '' SHARD DURATION '' @ py_str shard_duration
                                else query1);
                      query3 = (if truthy replication
                                then query2 @ '' REPLICATION '' @ py_str replication else query2);
                      query4 = (if dflt = PBool True then query3 @ '' DEFAULT'' else query3)
                  in Inr query4))"

definition alter_retention_policy ::
  "(string \<Rightarrow> string) \<Rightarrow> (string \<Rightarrow> pyerror + pyval) \<Rightarrow> (dict \<Rightarrow> pyerror + string) \<Rightarrow> client \<Rightarrow>
   pyval \<Rightarrow> pyval \<Rightarrow> pyval \<Rightarrow> pyval \<Rightarrow> pyval \<Rightarrow> pyval \<Rightarrow> (pyerror + pyval) \<times> client" where
  "alter_retention_policy compress loads dumps c retention_policy_name database duration
       replication dflt shard_duration =
     (case alter_retention_policy_statement c retention_policy_name database duration
             replication dflt shard_duration of
        Inl e \<Rightarrow> (Inl e, c)
      | Inr q \<Rightarrow> query compress loads dumps c q None False 0 PNone None ''POST'')"

definition drop_retention_policy_statement :: "client \<Rightarrow> pyval \<Rightarrow> pyval \<Rightarrow> pyerror + string" where
  "drop_retention_policy_statement c retention_policy_name database =
     (let database1 = (if database = PNone then c_database c else database)
      in case py_translate escape_name retention_policy_name of
           Inl e \<Rightarrow> Inl e
         | Inr rp \<Rightarrow>
             (case py_translate escape_name database1 of
                Inl e \<Rightarrow> Inl e
              | Inr db \<Rightarrow>
                  Inr (''DROP RETENTION POLICY '' @ quote @ rp @ quote @ '' '' @
                       ''ON '' @ quote @ db @ quote)))"

definition drop_retention_policy ::
  "(string \<Rightarrow> string) \<Rightarrow> (string \<Rightarrow> pyerror + pyval) \<Rightarrow> (dict \<Rightarrow> pyerror + string) \<Rightarrow> client \<Rightarrow>
   pyval \<Rightarrow> pyval \<Rightarrow> (pyerror + pyval) \<times> client" where
  "drop_retention_policy compress loads dumps c retention_policy_name database =
     (case drop_retention_policy_statement c retention_policy_name database of
        Inl e \<Rightarrow> (Inl e, c)
      | Inr q \<Rightarrow> query compress loads dumps c q None False 0 PNone None ''POST'')"

definition show_retention_policy_statement :: "client \<Rightarrow> pyval \<Rightarrow> pyerror + string" where
  "show_retention_policy_statement c database =
     (let database1 = (if database = PNone then c_database c else database)
      in case py_translate escape_name database1 of
           Inl e \<Rightarrow> Inl e
         | Inr db \<Rightarrow> Inr (''SHOW RETENTION POLICIES ON '' @ quote @ db @ quote))"

definition show_retention_policy ::
  "(string \<Rightarrow> string) \<Rightarrow> (string \<Rightarrow> pyerror + pyval) \<Rightarrow> (dict \<Rightarrow> pyerror + string) \<Rightarrow> client \<Rightarrow>
   pyval \<Rightarrow> (pyerror + pyval) \<times> client" where
  "show_retention_policy compress loads dumps c database =
     (case show_retention_policy_statement c database of
        Inl e \<Rightarrow> (Inl e, c)
      | Inr q \<Rightarrow> query compress loads dumps c q None False 0 PNone None ''GET'')"

definition create_user_statement :: "string \<Rightarrow> string \<Rightarrow> pyval \<Rightarrow> string" where
  "create_user_statement username password admin =
     (let query0 = ''CREATE USER '' @ username @ '' WITH PASSWORD '' @ password
      in if truthy admin then query0 @ '' WITH ALL PRIVILEGES'' else query0)"

definition create_user ::
  "(string \<Rightarrow> string) \<Rightarrow> (string \<Rightarrow> pyerror + pyval) \<Rightarrow> (dict \<Rightarrow> pyerror + string) \<Rightarrow> client \<Rightarrow>
   string \<Rightarrow> string \<Rightarrow> pyval \<Rightarrow> (pyerror + pyval) \<times> client" where
  "create_user compress loads dumps c username password admin =
     query compress loads dumps c (create_user_statement username password admin)
       None False 0 PNone None ''POST''"

definition drop_user_statement :: "string \<Rightarrow> string" where
  "drop_user_statement username = ''DROP USER '' @ username"

definition drop_user ::
  "(string \<Rightarrow> string) \<Rightarrow> (string \<Rightarrow> pyerror + pyval) \<Rightarrow> (dict \<Rightarrow> pyerror + string) \<Rightarrow> client \<Rightarrow>
   string \<Rightarrow> (pyerror + pyval) \<times> client" where
  "drop_user compress loads dumps c username =
     query compress loads dumps c (drop_user_statement username) None False 0 PNone None ''POST''"

section \<open>Inputs and observations of the statements\<close>

text \<open>
  The point of \<open>test_to_line_protocol\<close> (\<open>test/test_point.py\<close>): the test assigns the two
  dictionaries, in this order of their items.
\<close>

definition test_point :: point where
  "test_point = (Point (PStr ''test''))
     \<lparr>p_tags := [(''empty_tag'', PStr []), (''none_tag'', PNone),
                 (''backslash_tag'', PStr (''C:'' @ [backslash])),
                 (''string_tag'', PStr ''hello'')],
      p_fields := [(''int_val'', PInt 1), (''float_val'', PFloat (Finite ''1.1'')),
                   (''none_field'', PNone), (''bool_val'', PBool True),
                   (''string_val'', PStr ''hello'')]\<rparr>"




text \<open>
  The headers of a request: with gzip enabled, the given headers updated with the two
  gzip headers, as \<open>request\<close> does it.
\<close>

definition gzip_headers :: "bool \<Rightarrow> dict \<Rightarrow> dict" where
  "gzip_headers gz header =
     (if gz then dict_update header [(''Accept-Encoding'', PStr ''gzip''),
                                     (''Content-Encoding'', PStr ''gzip'')]
      else header)"

text \<open>
  A session that answers every request with the given status code, and the client of
  \<open>test_query\<close> (\<open>test/test_client.py\<close>): constructed without a session, then switched to
  the database \<open>database\<close>.
\<close>

definition ok_session :: "int \<Rightarrow> session" where
  "ok_session code =
     \<lparr>respond = (\<lambda>rq. Inr \<lparr>status_code = code, content = [], rs_headers = Map.empty,
                             rs_json = Inr (PDict [])\<rparr>),
      sent = []\<rparr>"

definition test_client :: "int \<Rightarrow> bool \<Rightarrow> client" where
  "test_client code gz =
     switch_database
       (OpenGeminiClient (ok_session code) ''localhost'' 8086 ''username'' ''password'' PNone None gz)
       (PStr ''database'')"

section \<open>The point encoder\<close>

subsection \<open>Evaluation of the decimal text of an integer\<close>

lemma digit_char_eval:
  "digit_char 0 = CHR ''0''" "digit_char (Suc 0) = CHR ''1''" "digit_char 2 = CHR ''2''"
  "digit_char 3 = CHR ''3''" "digit_char 4 = CHR ''4''" "digit_char 5 = CHR ''5''"
  "digit_char 6 = CHR ''6''" "digit_char 7 = CHR ''7''" "digit_char 8 = CHR ''8''"
  "digit_char 9 = CHR ''9''"
  by code_simp+

lemmas str_int_eval = str_int_def str_nat.simps digit_char_eval


subsection \<open>The example of the test suite\<close>

text \<open>
  Claim C1. The point of the test, with the tags \<open>empty_tag\<close> (empty), \<open>none_tag\<close> (null),
  \<open>backslash_tag\<close> and \<open>string_tag\<close> and the fields \<open>int_val\<close>, \<open>float_val\<close>, \<open>none_field\<close>
  (null), \<open>bool_val\<close>, \<open>string_val\<close> in this order, is rendered as the measurement, the
  two non-empty tags in ascending order of their keys, and the four non-null fields in
  the order of insertion.
\<close>

theorem test_point_line:
  "to_line_protocol parse test_point =
     Inr (''test'' @ '','' @ (''backslash_tag=C:'' @ [backslash] @ '',string_tag=hello'') @ '' '' @
          (''int_val=1i,float_val=1.1,bool_val=true,string_val='' @ quote @ ''hello'' @ quote))"
  by code_simp

subsection \<open>The field loop\<close>

text \<open>
  The text accumulated so far is only ever extended, so the loop over a dictionary is
  the loop over its first part followed by the loop over the rest.
\<close>

lemma fields_loop_prefix: "fields_loop xs (a @ b) = a @ fields_loop xs b"
proof (induction xs arbitrary: b)
  case Nil
  show ?case by simp
next
  case (Cons x xs)
  obtain k v where x: "x = (k, v)" by (cases x)
  show ?case
    unfolding x
    by (simp add: Let_def Cons.IH [symmetric])
qed

lemma fields_loop_acc: "fields_loop xs acc = acc @ fields_loop xs []"
  using fields_loop_prefix [of xs acc "[]"] by simp

lemma fields_loop_append: "fields_loop (xs @ ys) acc = fields_loop ys (fields_loop xs acc)"
proof (induction xs arbitrary: acc)
  case Nil
  show ?case by simp
next
  case (Cons x xs)
  obtain k v where x: "x = (k, v)" by (cases x)
  show ?case
    unfolding x by (simp add: Let_def Cons.IH)
qed

lemma lower_True: "lower ''True'' = ''true''"
  by code_simp

lemma lower_False: "lower ''False'' = ''false''"
  by code_simp

lemma lower_bool: "lower (py_str (PBool b)) = (if b then ''true'' else ''false'')"
  by (cases b) (simp_all add: lower_True lower_False)

lemma fields_loop_bool:
  "fields_loop (pre @ (key, PBool b) # post) [] =
     fields_loop pre [] @ '','' @ translate escape_name key @ ''='' @
     (if b then ''true'' else ''false'') @ fields_loop post []"
proof -
  have "fields_loop (pre @ (key, PBool b) # post) [] =
      fields_loop post (fields_loop pre [] @ '','' @ translate escape_name key @ ''='' @
        lower (py_str (PBool b)))"
    by (simp add: fields_loop_append Let_def)
  also have "\<dots> = (fields_loop pre [] @ '','' @ translate escape_name key @ ''='' @
        lower (py_str (PBool b))) @ fields_loop post []"
    by (rule fields_loop_acc)
  finally show ?thesis
    by (simp only: lower_bool append_assoc)
qed

text \<open>
  Claim C2. A field whose value is a boolean is rendered as \<open>,key=true\<close> or
  \<open>,key=false\<close>, in its place among the fields, although a boolean is an instance of
  \<open>int\<close>: the test for \<open>bool\<close> comes before the test for \<open>int\<close>, so the field gets
  neither the text \<open>True\<close> nor the suffix \<open>i\<close>. The line of a point with such a field
  is the measurement, the tags, a space, the field text without its leading comma, and
  the time.
\<close>

theorem bool_field_rendering:
  "fields_loop (pre @ (key, PBool b) # post) [] =
     fields_loop pre [] @ '','' @ translate escape_name key @ ''='' @
     (if b then ''true'' else ''false'') @ fields_loop post [] \<and>
   isinstance_int (PBool b) \<and>
   (p_fields p = pre @ (key, PBool b) # post \<and>
    py_translate escape_measurement (p_measurement p) = Inr m \<and>
    tags_loop (sorted_items (p_tags p)) [] = Inr tags \<and>
    convert_timestamp parse (p_time p) = Inr t \<longrightarrow>
    to_line_protocol parse p =
      Inr (m @ tags @ '' '' @
           tl (fields_loop pre [] @ '','' @ translate escape_name key @ ''='' @
               (if b then ''true'' else ''false'') @ fields_loop post []) @
           (if t \<noteq> PStr [] then '' '' @ py_str t else [])))"
proof (intro conjI impI)
  show "fields_loop (pre @ (key, PBool b) # post) [] =
     fields_loop pre [] @ '','' @ translate escape_name key @ ''='' @
     (if b then ''true'' else ''false'') @ fields_loop post []"
    by (rule fields_loop_bool)
  show "isinstance_int (PBool b)"
    by simp
next
  assume a: "p_fields p = pre @ (key, PBool b) # post \<and>
    py_translate escape_measurement (p_measurement p) = Inr m \<and>
    tags_loop (sorted_items (p_tags p)) [] = Inr tags \<and>
    convert_timestamp parse (p_time p) = Inr t"
  define ft where "ft = fields_loop pre [] @ '','' @ translate escape_name key @ ''='' @
     (if b then ''true'' else ''false'') @ fields_loop post []"
  from a have f: "fields_loop (p_fields p) [] = ft"
    by (simp only: ft_def fields_loop_bool)
  have ne: "ft \<noteq> []"
    by (simp add: ft_def)
  from a have a2: "py_translate escape_measurement (p_measurement p) = Inr m"
    and a3: "tags_loop (sorted_items (p_tags p)) [] = Inr tags"
    and a4: "convert_timestamp parse (p_time p) = Inr t"
    by simp_all
  have "to_line_protocol parse p =
      Inr (m @ tags @ '' '' @ tl ft @ (if t \<noteq> PStr [] then '' '' @ py_str t else []))"
    unfolding to_line_protocol_def a2 a3 a4 f by (simp add: ne)
  then show "to_line_protocol parse p =
      Inr (m @ tags @ '' '' @
           tl (fields_loop pre [] @ '','' @ translate escape_name key @ ''='' @
               (if b then ''true'' else ''false'') @ fields_loop post []) @
           (if t \<noteq> PStr [] then '' '' @ py_str t else []))"
    by (simp only: ft_def)
qed

theorem bool_field_rendering_witness:
  "to_line_protocol (\<lambda>s. Inl ParserError)
     ((Point (PStr ''weather''))
        \<lparr>p_fields := [(''temperature'', PInt 82), (''raining'', PBool False)],
         p_time := PInt 1465839830100400200\<rparr>) =
     Inr ''weather temperature=82i,raining=false 1465839830100400200''"
proof -
  let ?parse = "\<lambda>s::string. (Inl ParserError :: pyerror + datetime)"
  let ?p = "(Point (PStr ''weather''))
        \<lparr>p_fields := [(''temperature'', PInt 82), (''raining'', PBool False)],
         p_time := PInt 1465839830100400200\<rparr>"
  have h1: "p_fields ?p = [(''temperature'', PInt 82)] @ (''raining'', PBool False) # []"
    by simp
  have h2: "py_translate escape_measurement (p_measurement ?p) = Inr ''weather''"
    by code_simp
  have h3: "tags_loop (sorted_items (p_tags ?p)) [] = Inr []"
    by code_simp
  have h4: "convert_timestamp ?parse (p_time ?p) = Inr (PInt 1465839830100400200)"
    by (simp add: convert_timestamp_def)
  have e1: "fields_loop [(''temperature'', PInt 82)] [] = '',temperature=82i''"
    by code_simp
  have e2: "translate escape_name ''raining'' = ''raining''"
    by code_simp
  have e3: "py_str (PInt 1465839830100400200) = ''1465839830100400200''"
    by (simp add: str_int_eval)
  note r = bool_field_rendering [of "[(''temperature'', PInt 82)]" "''raining''" False "[]" ?p
      "''weather''" "[]" ?parse "PInt 1465839830100400200",
      THEN conjunct2, THEN conjunct2, rule_format, OF conjI [OF h1 conjI [OF h2 conjI [OF h3 h4]]]]
  show ?thesis
    unfolding r e1 e2 e3 by simp
qed

subsection \<open>Dropped entries\<close>








subsection \<open>Entries that \<open>tag\<close> and \<open>field\<close> ignore\<close>

text \<open>
  Claim C10. \<open>tag\<close> with a string key and a value that is not a string returns the point
  as it was, with no error; so does \<open>field\<close> with a string key and a value that is
  neither a string, a float, a boolean nor an integer.
\<close>

theorem tag_field_ignore:
  "(isinstance_str key \<and> \<not> isinstance_str value \<longrightarrow> tag p key value = Inr p) \<and>
   (isinstance_str fld \<and>
      \<not> (isinstance_str v \<or> isinstance_float v \<or> isinstance_bool v \<or> isinstance_int v) \<longrightarrow>
    field p fld v = Inr p)"
  by (cases key; cases fld) (simp_all add: tag_def field_def)

theorem tag_field_ignore_witness:
  "tag (Point (PStr ''weather'')) (PStr ''location'') (PInt 5) = Inr (Point (PStr ''weather'')) \<and>
   field (Point (PStr ''weather'')) (PStr ''temperature'') PNone = Inr (Point (PStr ''weather''))"
  using tag_field_ignore [of "PStr ''location''" "PInt 5" "Point (PStr ''weather'')"
      "PStr ''temperature''" PNone]
  by simp

subsection \<open>The timestamp normalizer\<close>

lemma to_nanos_micros: "to_nanos d = 1000 * utc_micros d"
proof -
  define t where "t = utc_micros d"
  define q where "q = t div 86400000000"
  define r where "r = t mod 86400000000"
  define sec where "sec = r div 1000000"
  define m where "m = t mod 1000000"
  have e1: "t = q * 86400000000 + r"
    unfolding q_def r_def by simp
  have e2: "r = sec * 1000000 + r mod 1000000"
    unfolding sec_def by simp
  have e3: "r mod 1000000 = m"
    unfolding r_def m_def by (simp add: mod_mod_cancel)
  have "1000 * t = q * 86400 * 10 ^ 9 + sec * 10 ^ 9 + m * 10 ^ 3"
  proof -
    have e4: "r = sec * 1000000 + m"
      using e2 e3 by simp
    show ?thesis
      by (subst e1, subst e4) (simp add: algebra_simps)
  qed
  then show ?thesis
    unfolding to_nanos_def datetime_sub_def timedelta_of_micros_def EPOCH_def Let_def
    by (simp add: utc_micros_def q_def r_def sec_def m_def t_def)
qed

text \<open>
  Claim C4. \<open>None\<close> gives the empty string; an integer (a boolean is one) is returned
  as it is; a string is parsed and then treated as the datetime it denotes; a datetime,
  taken as UTC when it is naive, gives \<open>days * 86400 * 10^9 + seconds * 10^9 +
  microseconds * 10^3\<close> of its distance to the epoch, which is the number of
  nanoseconds since the epoch; a value of any other type raises \<open>ValueError\<close>.
\<close>

theorem convert_timestamp_cases:
  "convert_timestamp parse PNone = Inr (PStr []) \<and>
   (isinstance_int v \<longrightarrow> convert_timestamp parse v = Inr v) \<and>
   (parse s = Inr d \<longrightarrow>
      convert_timestamp parse (PStr s) = convert_timestamp parse (PDatetime d)) \<and>
   convert_timestamp parse (PDatetime d) =
      Inr (PInt (let delta = datetime_sub (if tzinfo d = None then localize_utc d else d) EPOCH
                 in days delta * 86400 * 10 ^ 9 + seconds delta * 10 ^ 9 +
                    microseconds delta * 10 ^ 3)) \<and>
   convert_timestamp parse (PDatetime d) =
      Inr (PInt (1000 * utc_micros (if tzinfo d = None then localize_utc d else d))) \<and>
   (w \<noteq> PNone \<and> \<not> isinstance_int w \<and> \<not> isinstance_str w \<and> \<not> isinstance_datetime w \<longrightarrow>
      convert_timestamp parse w = Inl (ValueError w))"
proof (intro conjI impI)
  show "convert_timestamp parse PNone = Inr (PStr [])"
    by (simp add: convert_timestamp_def)
  show "convert_timestamp parse v = Inr v" if "isinstance_int v"
    using that by (cases v) (simp_all add: convert_timestamp_def)
  show "convert_timestamp parse (PStr s) = convert_timestamp parse (PDatetime d)"
    if "parse s = Inr d"
    using that by (simp add: convert_timestamp_def)
  show "convert_timestamp parse (PDatetime d) =
      Inr (PInt (let delta = datetime_sub (if tzinfo d = None then localize_utc d else d) EPOCH
                 in days delta * 86400 * 10 ^ 9 + seconds delta * 10 ^ 9 +
                    microseconds delta * 10 ^ 3))"
    by (simp add: convert_timestamp_def to_nanos_def Let_def)
  show "convert_timestamp parse (PDatetime d) =
      Inr (PInt (1000 * utc_micros (if tzinfo d = None then localize_utc d else d)))"
    by (simp add: convert_timestamp_def to_nanos_micros)
  show "convert_timestamp parse w = Inl (ValueError w)"
    if "w \<noteq> PNone \<and> \<not> isinstance_int w \<and> \<not> isinstance_str w \<and> \<not> isinstance_datetime w"
    using that by (cases w) (simp_all add: convert_timestamp_def)
qed

theorem convert_timestamp_cases_witness:
  "convert_timestamp (\<lambda>s. Inr \<lparr>wall_micros = 1500000, tzinfo = None\<rparr>) (PInt 1465839830100400200)
     = Inr (PInt 1465839830100400200) \<and>
   convert_timestamp (\<lambda>s. Inr \<lparr>wall_micros = 1500000, tzinfo = None\<rparr>)
       (PStr ''1970-01-01 00:00:01.5'')
     = Inr (PInt 1500000000) \<and>
   convert_timestamp (\<lambda>s. Inr \<lparr>wall_micros = 1500000, tzinfo = None\<rparr>) (PFloat (Finite ''1.5''))
     = Inl (ValueError (PFloat (Finite ''1.5'')))"
proof -
  let ?parse = "\<lambda>s::string. (Inr \<lparr>wall_micros = 1500000, tzinfo = None\<rparr> :: pyerror + datetime)"
  note h = convert_timestamp_cases [of ?parse "PInt 1465839830100400200"
      "''1970-01-01 00:00:01.5''" "\<lparr>wall_micros = 1500000, tzinfo = None\<rparr>"
      "PFloat (Finite ''1.5'')"]
  note h2 = h [THEN conjunct2, THEN conjunct1]
  note h3 = h [THEN conjunct2, THEN conjunct2, THEN conjunct1]
  note h5 = h [THEN conjunct2, THEN conjunct2, THEN conjunct2, THEN conjunct2, THEN conjunct1]
  note h6 = h [THEN conjunct2, THEN conjunct2, THEN conjunct2, THEN conjunct2, THEN conjunct2]
  from h2 have "convert_timestamp ?parse (PInt 1465839830100400200) = Inr (PInt 1465839830100400200)"
    by simp
  moreover from h3 h5 have "convert_timestamp ?parse (PStr ''1970-01-01 00:00:01.5'') =
      Inr (PInt (1000 * utc_micros (localize_utc \<lparr>wall_micros = 1500000, tzinfo = None\<rparr>)))"
    by simp
  moreover from h6 have "convert_timestamp ?parse (PFloat (Finite ''1.5'')) =
      Inl (ValueError (PFloat (Finite ''1.5'')))"
    by simp
  ultimately show ?thesis
    by (simp add: localize_utc_def utc_micros_def)
qed

section \<open>The client\<close>

subsection \<open>Dictionaries\<close>

lemma dict_get_dict_set:
  "dict_get (dict_set d k v) k' = (if k' = k then Some v else dict_get d k')"
  by (induction d) (auto simp add: dict_get_def)

lemma dict_get_dict_update:
  "dict_get (dict_update d e) k =
     (case dict_get (rev e) k of Some v \<Rightarrow> Some v | None \<Rightarrow> dict_get d k)"
  unfolding dict_update_def
proof (induction e arbitrary: d)
  case Nil
  show ?case by (simp add: dict_get_def)
next
  case (Cons x e)
  obtain k0 v0 where x: "x = (k0, v0)" by (cases x)
  have "dict_get (foldl (\<lambda>acc (k, v). dict_set acc k v) (dict_set d k0 v0) e) k =
      (case dict_get (rev e) k of Some v \<Rightarrow> Some v | None \<Rightarrow> dict_get (dict_set d k0 v0) k)"
    by (rule Cons.IH)
  moreover have "dict_get (rev (x # e)) k =
      (case dict_get (rev e) k of Some v \<Rightarrow> Some v
       | None \<Rightarrow> if k = k0 then Some v0 else None)"
    unfolding x by (simp add: dict_get_def map_add_def split: option.split)
  ultimately show ?case
    unfolding x by (simp add: dict_get_dict_set split: option.split)
qed

subsection \<open>The request that is sent\<close>

lemma request_sent:
  assumes "c_session c = Some s"
  shows "c_session (snd (request compress c url method data params code header_arg)) =
      Some (s\<lparr>sent := sent s @
        [\<lparr>rq_method = method, rq_url = c_baseurl c @ ''/'' @ url,
          rq_auth = (c_username c, c_password c),
          rq_data = (if c_gzip c then map_option compress data else data),
          rq_headers = gzip_headers (c_gzip c)
             (case header_arg of HeaderNone \<Rightarrow> c_headers c | HeaderWrite \<Rightarrow> c_write_headers c
              | HeaderGiven h \<Rightarrow> h),
          rq_params = (case params of None \<Rightarrow> [] | Some ps \<Rightarrow> ps)\<rparr>]\<rparr>)"
  using assms
  by (cases data; cases header_arg)
    (simp_all add: request_def gzip_headers_def Let_def split: sum.split)

lemma request_result:
  assumes "c_session c = Some s"
  shows "fst (request compress c url method data params code header_arg) =
      (case respond s
         \<lparr>rq_method = method, rq_url = c_baseurl c @ ''/'' @ url,
          rq_auth = (c_username c, c_password c),
          rq_data = (if c_gzip c then map_option compress data else data),
          rq_headers = gzip_headers (c_gzip c)
             (case header_arg of HeaderNone \<Rightarrow> c_headers c | HeaderWrite \<Rightarrow> c_write_headers c
              | HeaderGiven h \<Rightarrow> h),
          rq_params = (case params of None \<Rightarrow> [] | Some ps \<Rightarrow> ps)\<rparr> of
         Inl e \<Rightarrow> Inl e
       | Inr rs \<Rightarrow> if status_code rs = code then Inr rs
                   else Inl (HTTPException (status_code rs) (content rs)))"
  using assms
  by (cases data; cases header_arg)
    (simp_all add: request_def gzip_headers_def Let_def split: sum.split)

text \<open>
  Claim C9. On a client that has its session, \<open>write\<close> of the line \<open>L\<close> sends exactly one
  request: a POST to the write endpoint whose body is \<open>L\<close> and a newline (passed through
  \<open>gzip.compress\<close> when gzip is enabled, with the gzip headers), with the parameters
  \<open>db\<close>, the client's current database, and \<open>precision\<close>; the call succeeds when the
  status of the response is 204 and raises otherwise.
\<close>

theorem write_line_request:
  "c_session c = Some s \<longrightarrow>
     c_session (snd (write_line compress c line precision)) =
       Some (s\<lparr>sent := sent s @
         [\<lparr>rq_method = ''POST'', rq_url = c_baseurl c @ ''/write'',
           rq_auth = (c_username c, c_password c),
           rq_data = Some (if c_gzip c then compress (line @ [CHR 0x0A]) else line @ [CHR 0x0A]),
           rq_headers = gzip_headers (c_gzip c) (c_write_headers c),
           rq_params = [(''db'', c_database c), (''precision'', precision)]\<rparr>]\<rparr>) \<and>
     fst (write_line compress c line precision) =
       (case respond s
          \<lparr>rq_method = ''POST'', rq_url = c_baseurl c @ ''/write'',
           rq_auth = (c_username c, c_password c),
           rq_data = Some (if c_gzip c then compress (line @ [CHR 0x0A]) else line @ [CHR 0x0A]),
           rq_headers = gzip_headers (c_gzip c) (c_write_headers c),
           rq_params = [(''db'', c_database c), (''precision'', precision)]\<rparr> of
          Inl e \<Rightarrow> Inl e
        | Inr rs \<Rightarrow> if status_code rs = 204 then Inr rs
                    else Inl (HTTPException (status_code rs) (content rs)))"
proof
  assume s: "c_session c = Some s"
  show "c_session (snd (write_line compress c line precision)) =
       Some (s\<lparr>sent := sent s @
         [\<lparr>rq_method = ''POST'', rq_url = c_baseurl c @ ''/write'',
           rq_auth = (c_username c, c_password c),
           rq_data = Some (if c_gzip c then compress (line @ [CHR 0x0A]) else line @ [CHR 0x0A]),
           rq_headers = gzip_headers (c_gzip c) (c_write_headers c),
           rq_params = [(''db'', c_database c), (''precision'', precision)]\<rparr>]\<rparr>) \<and>
     fst (write_line compress c line precision) =
       (case respond s
          \<lparr>rq_method = ''POST'', rq_url = c_baseurl c @ ''/write'',
           rq_auth = (c_username c, c_password c),
           rq_data = Some (if c_gzip c then compress (line @ [CHR 0x0A]) else line @ [CHR 0x0A]),
           rq_headers = gzip_headers (c_gzip c) (c_write_headers c),
           rq_params = [(''db'', c_database c), (''precision'', precision)]\<rparr> of
          Inl e \<Rightarrow> Inl e
        | Inr rs \<Rightarrow> if status_code rs = 204 then Inr rs
                    else Inl (HTTPException (status_code rs) (content rs)))"
    unfolding write_line_def Let_def
    by (simp add: request_sent [OF s] request_result [OF s])
qed


theorem write_line_request_witness:
  "map rq_data (sent (the (c_session (snd
      (write_line (\<lambda>d. ''gzip:'' @ d) (test_client 204 True)
         ''weather,location=us-midwest temperature=82i 1465839830100400200'' (PStr ''ns''))))))
     = [Some (''gzip:weather,location=us-midwest temperature=82i 1465839830100400200'' @ [CHR 0x0A])] \<and>
   map rq_params (sent (the (c_session (snd
      (write_line (\<lambda>d. ''gzip:'' @ d) (test_client 204 True)
         ''weather,location=us-midwest temperature=82i 1465839830100400200'' (PStr ''ns''))))))
     = [[(''db'', PStr ''database''), (''precision'', PStr ''ns'')]] \<and>
   map_sum id status_code (fst
      (write_line (\<lambda>d. ''gzip:'' @ d) (test_client 204 True)
         ''weather,location=us-midwest temperature=82i 1465839830100400200'' (PStr ''ns'')))
     = Inr 204 \<and>
   map_sum id status_code (fst
      (write_line (\<lambda>d. ''gzip:'' @ d) (test_client 200 True)
         ''weather,location=us-midwest temperature=82i 1465839830100400200'' (PStr ''ns'')))
     = Inl (HTTPException 200 [])"
proof -
  have s: "c_session (test_client code True) = Some (ok_session code)" for code
    by (simp add: test_client_def switch_database_def OpenGeminiClient_def)
  have g: "c_gzip (test_client code True)" and d: "c_database (test_client code True) = PStr ''database''"
    for code
    by (simp_all add: test_client_def switch_database_def OpenGeminiClient_def)
  note w204 = write_line_request [of "test_client 204 True" "ok_session 204" "\<lambda>d. ''gzip:'' @ d"
      "''weather,location=us-midwest temperature=82i 1465839830100400200''" "PStr ''ns''",
      rule_format, OF s]
  note w200 = write_line_request [of "test_client 200 True" "ok_session 200" "\<lambda>d. ''gzip:'' @ d"
      "''weather,location=us-midwest temperature=82i 1465839830100400200''" "PStr ''ns''",
      rule_format, OF s]
  show ?thesis
    unfolding w204 [THEN conjunct1] w204 [THEN conjunct2] w200 [THEN conjunct2]
    by (simp add: g d ok_session_def)
qed

subsection \<open>The parameters of a query\<close>

lemma query_sent:
  assumes "c_session c = Some s"
    and "query_params loads dumps c qry params chunked chunk_size epoch bind_params = Inr ps"
  shows "c_session (snd (query compress loads dumps c qry params chunked chunk_size epoch
             bind_params method)) =
      Some (s\<lparr>sent := sent s @
        [\<lparr>rq_method = method, rq_url = c_baseurl c @ ''/query'',
          rq_auth = (c_username c, c_password c), rq_data = None,
          rq_headers = gzip_headers (c_gzip c) (c_headers c), rq_params = ps\<rparr>]\<rparr>)"
proof -
  have "snd (query compress loads dumps c qry params chunked chunk_size epoch bind_params method) =
      snd (request compress c ''query'' method None (Some ps) 200 HeaderNone)"
    unfolding query_def assms(2) by (simp split: prod.split sum.split)
  then show ?thesis
    by (simp add: request_sent [OF assms(1)])
qed

lemma query_params_plain:
  "query_params loads dumps c qry params chunked chunk_size epoch None =
     Inr (let ps = dict_set
                (let params1 = (case params of None \<Rightarrow> [] | Some ps \<Rightarrow> ps);
                     params2 = (if epoch \<noteq> PNone then dict_set params1 ''epoch'' epoch else params1)
                 in if chunked
                    then (let ps = dict_set params2 ''chunked'' (PStr ''true'')
                          in if chunk_size > 0 then dict_set ps ''chunk_size'' (PInt chunk_size)
                             else ps)
                    else params2)
                ''q'' (PStr qry)
          in if (case dict_get ps ''db'' of None \<Rightarrow> True | Some v \<Rightarrow> v = PNone)
             then dict_set ps ''db'' (c_database c) else ps)"
  by (simp add: query_params_def Let_def)

lemma query_params_q_db:
  assumes "query_params loads dumps c qry params chunked chunk_size epoch bind_params = Inr ps"
    and "\<forall>ps0. params = Some ps0 \<longrightarrow> dict_get ps0 ''db'' = None"
  shows "dict_get ps ''q'' = Some (PStr qry) \<and> dict_get ps ''db'' = Some (c_database c)"
proof -
  define p1 where "p1 = (case params of None \<Rightarrow> [] | Some ps0 \<Rightarrow> ps0)"
  define p2 where "p2 = (if epoch \<noteq> PNone then dict_set p1 ''epoch'' epoch else p1)"
  define p3 where "p3 =
      (if chunked
       then (let ps = dict_set p2 ''chunked'' (PStr ''true'')
             in if chunk_size > 0 then dict_set ps ''chunk_size'' (PInt chunk_size) else ps)
       else p2)"
  define p4 where "p4 =
      (case bind_params of
         None \<Rightarrow> Inr p3
       | Some bp \<Rightarrow>
           (case (case dict_get p3 ''params'' of
                    None \<Rightarrow> loads ''{}''
                  | Some v \<Rightarrow> if isinstance_str v then loads (the_str v) else Inl TypeError) of
              Inl e \<Rightarrow> Inl e
            | Inr (PDict params_dict) \<Rightarrow>
                (case dumps (dict_update params_dict bp) of
                   Inl e \<Rightarrow> Inl e
                 | Inr text \<Rightarrow> Inr (dict_set p3 ''params'' (PStr text)))
            | Inr other \<Rightarrow> Inl AttributeError))"
  have q: "query_params loads dumps c qry params chunked chunk_size epoch bind_params =
      (case p4 of
         Inl e \<Rightarrow> Inl e
       | Inr ps \<Rightarrow>
           if (case dict_get (dict_set ps ''q'' (PStr qry)) ''db'' of None \<Rightarrow> True
               | Some v \<Rightarrow> v = PNone)
           then Inr (dict_set (dict_set ps ''q'' (PStr qry)) ''db'' (c_database c))
           else Inr (dict_set ps ''q'' (PStr qry)))"
    unfolding query_params_def p4_def p3_def p2_def p1_def Let_def by (rule refl)
  have db1: "dict_get p1 ''db'' = None"
    using assms(2) unfolding p1_def by (cases params) (simp_all add: dict_get_def)
  have db3: "dict_get p3 ''db'' = None"
    unfolding p3_def p2_def Let_def by (simp add: dict_get_dict_set db1)
  from assms(1) q obtain ps4 where p4: "p4 = Inr ps4"
    by (cases p4) simp_all
  have db4: "dict_get ps4 ''db'' = None"
  proof (cases bind_params)
    case None
    with p4 have "ps4 = p3" by (simp add: p4_def)
    then show ?thesis by (simp add: db3)
  next
    case (Some bp)
    with p4 obtain encoded where "ps4 = dict_set p3 ''params'' (PStr encoded)"
      unfolding p4_def by (auto split: sum.splits pyval.splits)
    then show ?thesis by (simp add: dict_get_dict_set db3)
  qed
  from assms(1) have "ps = dict_set (dict_set ps4 ''q'' (PStr qry)) ''db'' (c_database c)"
    unfolding q p4 by (simp add: dict_get_dict_set db4)
  then show ?thesis
    by (simp add: dict_get_dict_set)
qed


lemma query_params_bind:
  assumes "(case dict_get (case params of None \<Rightarrow> [] | Some ps0 \<Rightarrow> ps0) ''params'' of
              None \<Rightarrow> loads ''{}''
            | Some v \<Rightarrow> if isinstance_str v then loads (the_str v) else Inl TypeError) = Inr (PDict d)"
    and "dumps (dict_update d bp) = Inr encoded"
  shows "\<exists>ps. query_params loads dumps c qry params chunked chunk_size epoch (Some bp) = Inr ps \<and>
      dict_get ps ''params'' = Some (PStr encoded)"
proof -
  define p1 where "p1 = (case params of None \<Rightarrow> [] | Some ps0 \<Rightarrow> ps0)"
  define p2 where "p2 = (if epoch \<noteq> PNone then dict_set p1 ''epoch'' epoch else p1)"
  define p3 where "p3 =
      (if chunked
       then (let ps = dict_set p2 ''chunked'' (PStr ''true'')
             in if chunk_size > 0 then dict_set ps ''chunk_size'' (PInt chunk_size) else ps)
       else p2)"
  define p4 where "p4 =
      (case (case dict_get p3 ''params'' of
               None \<Rightarrow> loads ''{}''
             | Some v \<Rightarrow> if isinstance_str v then loads (the_str v) else Inl TypeError) of
         Inl e \<Rightarrow> Inl e
       | Inr (PDict params_dict) \<Rightarrow>
           (case dumps (dict_update params_dict bp) of
              Inl e \<Rightarrow> Inl e
            | Inr text \<Rightarrow> Inr (dict_set p3 ''params'' (PStr text)))
       | Inr other \<Rightarrow> Inl AttributeError)"
  have q: "query_params loads dumps c qry params chunked chunk_size epoch (Some bp) =
      (case p4 of
         Inl e \<Rightarrow> Inl e
       | Inr ps \<Rightarrow>
           if (case dict_get (dict_set ps ''q'' (PStr qry)) ''db'' of None \<Rightarrow> True
               | Some v \<Rightarrow> v = PNone)
           then Inr (dict_set (dict_set ps ''q'' (PStr qry)) ''db'' (c_database c))
           else Inr (dict_set ps ''q'' (PStr qry)))"
    unfolding query_params_def p4_def p3_def p2_def p1_def Let_def by simp
  have "dict_get p3 ''params'' = dict_get p1 ''params''"
    unfolding p3_def p2_def Let_def by (simp add: dict_get_dict_set)
  with assms(1) have "(case dict_get p3 ''params'' of
               None \<Rightarrow> loads ''{}''
             | Some v \<Rightarrow> if isinstance_str v then loads (the_str v) else Inl TypeError) =
      Inr (PDict d)"
    by (simp add: p1_def)
  then have p4: "p4 = Inr (dict_set p3 ''params'' (PStr encoded))"
    unfolding p4_def by (simp add: assms(2))
  show ?thesis
    unfolding q p4 by (simp add: dict_get_dict_set)
qed

text \<open>
  Claim C8. On a client that has its session, a query with the statement \<open>S\<close> and no
  \<open>db\<close> among the caller's parameters sends one request to the query endpoint whose
  parameters hold \<open>q = S\<close> and \<open>db\<close>, the client's current database. Without
  \<open>bind_params\<close> the parameters are always built. With \<open>bind_params\<close>, when the prior
  \<open>params\<close> text (or \<open>{}\<close>) decodes to a dictionary \<open>d\<close> and the merged dictionary
  encodes to a text, that text is the \<open>params\<close> parameter; in the merged dictionary a key
  of \<open>bind_params\<close> has the value that \<open>bind_params\<close> gives it (the last one, should the
  list repeat a key), any other key the value of \<open>d\<close>.
\<close>

theorem query_request:
  "(c_session c = Some s \<and> (\<forall>ps0. params = Some ps0 \<longrightarrow> dict_get ps0 ''db'' = None) \<and>
    query_params loads dumps c qry params chunked chunk_size epoch bind_params = Inr ps \<longrightarrow>
      c_session (snd (query compress loads dumps c qry params chunked chunk_size epoch
                        bind_params method)) =
        Some (s\<lparr>sent := sent s @
          [\<lparr>rq_method = method, rq_url = c_baseurl c @ ''/query'',
            rq_auth = (c_username c, c_password c), rq_data = None,
            rq_headers = gzip_headers (c_gzip c) (c_headers c), rq_params = ps\<rparr>]\<rparr>) \<and>
      dict_get ps ''q'' = Some (PStr qry) \<and> dict_get ps ''db'' = Some (c_database c)) \<and>
   (\<exists>ps1. query_params loads dumps c qry params chunked chunk_size epoch None = Inr ps1) \<and>
   ((case dict_get (case params of None \<Rightarrow> [] | Some ps0 \<Rightarrow> ps0) ''params'' of
       None \<Rightarrow> loads ''{}''
     | Some v \<Rightarrow> if isinstance_str v then loads (the_str v) else Inl TypeError) = Inr (PDict d) \<and>
    dumps (dict_update d bp) = Inr encoded \<longrightarrow>
      (\<exists>ps2. query_params loads dumps c qry params chunked chunk_size epoch (Some bp) = Inr ps2 \<and>
         dict_get ps2 ''params'' = Some (PStr encoded))) \<and>
   dict_get (dict_update d bp) k =
     (case dict_get (rev bp) k of Some v \<Rightarrow> Some v | None \<Rightarrow> dict_get d k)"
proof (intro conjI impI)
  assume a: "c_session c = Some s \<and> (\<forall>ps0. params = Some ps0 \<longrightarrow> dict_get ps0 ''db'' = None) \<and>
    query_params loads dumps c qry params chunked chunk_size epoch bind_params = Inr ps"
  then have a1: "c_session c = Some s"
    and a2: "\<forall>ps0. params = Some ps0 \<longrightarrow> dict_get ps0 ''db'' = None"
    and a3: "query_params loads dumps c qry params chunked chunk_size epoch bind_params = Inr ps"
    by blast+
  show "c_session (snd (query compress loads dumps c qry params chunked chunk_size epoch
                        bind_params method)) =
        Some (s\<lparr>sent := sent s @
          [\<lparr>rq_method = method, rq_url = c_baseurl c @ ''/query'',
            rq_auth = (c_username c, c_password c), rq_data = None,
            rq_headers = gzip_headers (c_gzip c) (c_headers c), rq_params = ps\<rparr>]\<rparr>)"
    by (rule query_sent [OF a1 a3])
  show "dict_get ps ''q'' = Some (PStr qry)" and "dict_get ps ''db'' = Some (c_database c)"
    using query_params_q_db [OF a3 a2] by blast+
next
  show "\<exists>ps1. query_params loads dumps c qry params chunked chunk_size epoch None = Inr ps1"
    by (simp add: query_params_plain)
next
  assume b: "(case dict_get (case params of None \<Rightarrow> [] | Some ps0 \<Rightarrow> ps0) ''params'' of
       None \<Rightarrow> loads ''{}''
     | Some v \<Rightarrow> if isinstance_str v then loads (the_str v) else Inl TypeError) = Inr (PDict d) \<and>
    dumps (dict_update d bp) = Inr encoded"
  show "\<exists>ps2. query_params loads dumps c qry params chunked chunk_size epoch (Some bp) = Inr ps2 \<and>
         dict_get ps2 ''params'' = Some (PStr encoded)"
    using b by (intro query_params_bind [where d = d]) simp_all
next
  show "dict_get (dict_update d bp) k =
     (case dict_get (rev bp) k of Some v \<Rightarrow> Some v | None \<Rightarrow> dict_get d k)"
    by (rule dict_get_dict_update)
qed


theorem query_request_witness:
  "map rq_params (sent (the (c_session (snd
      (query (\<lambda>d. d) (\<lambda>s. Inr (PDict [(''a'', PInt 1), (''b'', PInt 2)]))
         (\<lambda>d. if d = [(''a'', PInt 5), (''b'', PInt 2)] then Inr ''merged'' else Inl TypeError)
         (test_client 200 False) ''select * from weather'' None False 0 PNone None ''GET'')))))
     = [[(''q'', PStr ''select * from weather''), (''db'', PStr ''database'')]] \<and>
   (\<exists>ps2. query_params (\<lambda>s. Inr (PDict [(''a'', PInt 1), (''b'', PInt 2)]))
         (\<lambda>d. if d = [(''a'', PInt 5), (''b'', PInt 2)] then Inr ''merged'' else Inl TypeError)
         (test_client 200 False) ''select * from weather'' (Some [(''params'', PStr ''old'')])
         False 0 PNone (Some [(''a'', PInt 5)]) = Inr ps2 \<and>
       dict_get ps2 ''params'' = Some (PStr ''merged'')) \<and>
   dict_get (dict_update [(''a'', PInt 1), (''b'', PInt 2)] [(''a'', PInt 5)]) ''a'' = Some (PInt 5) \<and>
   dict_get (dict_update [(''a'', PInt 1), (''b'', PInt 2)] [(''a'', PInt 5)]) ''b'' = Some (PInt 2)"
proof -
  let ?loads = "\<lambda>s::string. (Inr (PDict [(''a'', PInt 1), (''b'', PInt 2)]) :: pyerror + pyval)"
  let ?dumps = "\<lambda>d::dict. if d = [(''a'', PInt 5), (''b'', PInt 2)] then Inr ''merged''
                  else (Inl TypeError :: pyerror + string)"
  let ?c = "test_client 200 False"
  let ?ps = "[(''q'', PStr ''select * from weather''), (''db'', PStr ''database'')]"
  have s: "c_session ?c = Some (ok_session 200)"
    by (simp add: test_client_def switch_database_def OpenGeminiClient_def)
  have db: "c_database ?c = PStr ''database''"
    by (simp add: test_client_def switch_database_def OpenGeminiClient_def)
  have nodb: "\<forall>ps0. (None :: dict option) = Some ps0 \<longrightarrow> dict_get ps0 ''db'' = None"
    by simp
  have qp: "query_params ?loads ?dumps ?c ''select * from weather'' None False 0 PNone None = Inr ?ps"
    by (simp add: query_params_def dict_get_def db)
  have merged: "dict_update [(''a'', PInt 1), (''b'', PInt 2)] [(''a'', PInt 5)] =
      [(''a'', PInt 5), (''b'', PInt 2)]"
    by (simp add: dict_update_def)
  note a = query_request [of ?c "ok_session 200" None ?loads ?dumps "''select * from weather''"
      False 0 PNone None ?ps "\<lambda>d. d" "''GET''" "[]" "[]" "[]" "[]",
      THEN conjunct1, rule_format, OF conjI [OF s conjI [OF nodb qp]], THEN conjunct1]
  have b1: "(case dict_get (case Some [(''params'', PStr ''old'')] of None \<Rightarrow> [] | Some ps0 \<Rightarrow> ps0)
                ''params'' of
              None \<Rightarrow> ?loads ''{}''
            | Some v \<Rightarrow> if isinstance_str v then ?loads (the_str v) else Inl TypeError) =
      Inr (PDict [(''a'', PInt 1), (''b'', PInt 2)])"
    by (simp add: dict_get_def)
  have b2: "?dumps (dict_update [(''a'', PInt 1), (''b'', PInt 2)] [(''a'', PInt 5)]) = Inr ''merged''"
    by (simp add: merged)
  note q = query_request [of ?c "ok_session 200" "Some [(''params'', PStr ''old'')]" ?loads ?dumps
      "''select * from weather''" False 0 PNone None ?ps "\<lambda>d. d" "''GET''"
      "[(''a'', PInt 1), (''b'', PInt 2)]" "[(''a'', PInt 5)]" "''merged''" key for key]
  note b = q [THEN conjunct2, THEN conjunct2, THEN conjunct1, rule_format, OF conjI [OF b1 b2]]
  note m = q [THEN conjunct2, THEN conjunct2, THEN conjunct2]
  have m1: "dict_get (dict_update [(''a'', PInt 1), (''b'', PInt 2)] [(''a'', PInt 5)]) ''a'' =
      Some (PInt 5)"
    unfolding m by (simp add: dict_get_def)
  have m2: "dict_get (dict_update [(''a'', PInt 1), (''b'', PInt 2)] [(''a'', PInt 5)]) ''b'' =
      Some (PInt 2)"
    unfolding m by (simp add: dict_get_def)
  show ?thesis
    unfolding a using b m1 m2 by (simp add: ok_session_def)
qed

subsection \<open>The shard duration of a new retention policy\<close>

text \<open>
  Claim C5, at \<open>create_retention_policy("rp", 1, "1h", database="db",
  shard_duration="30m")\<close>: the statement ends with the text \<open>{shard_duration}\<close>, not with
  the value \<open>30m\<close>.
\<close>

theorem shard_duration_not_interpolated:
  "create_retention_policy_statement c (PStr ''rp'') (PInt 1) (PStr ''1h'') (PStr ''db'')
       (PBool False) (PStr ''30m'') =
     Inr (''CREATE RETENTION POLICY '' @ quote @ ''rp'' @ quote @ '' ON '' @ quote @ ''db'' @ quote @
          '' DURATION 1h REPLICATION 1 SHARD DURATION {shard_duration}'')"
  by code_simp

subsection \<open>Names in the database and user statements\<close>

text \<open>
  Claim C6, at \<open>create_database("my db")\<close>: the statement holds the name as it was given
  (so do those of \<open>drop_database\<close>, \<open>create_user\<close> and \<open>drop_user\<close>), where
  \<open>escape_name\<close> would put a backslash before the space, as the statement of
  \<open>show_retention_policy\<close> does for the same name.
\<close>

theorem create_database_raw_name:
  "create_database_statement ''my db'' = ''CREATE DATABASE my db'' \<and>
   drop_database_statement ''my db'' = ''DROP DATABASE my db'' \<and>
   create_user_statement ''my db'' ''secret'' (PBool False) =
     ''CREATE USER my db WITH PASSWORD secret'' \<and>
   drop_user_statement ''my db'' = ''DROP USER my db'' \<and>
   translate escape_name ''my db'' = ''my'' @ [backslash] @ '' db'' \<and>
   show_retention_policy_statement c (PStr ''my db'') =
     Inr (''SHOW RETENTION POLICIES ON '' @ quote @ ''my'' @ [backslash] @ '' db'' @ quote)"
  by code_simp

subsection \<open>A session supplied to the constructor\<close>

text \<open>
  Claim C7. The constructor assigns \<open>_session\<close> only when no session is supplied: with a
  supplied session the attribute is left unassigned and every \<open>request\<close> raises
  \<open>AttributeError\<close>.
\<close>

theorem supplied_session_dropped:
  "c_session (OpenGeminiClient new_session host port username password database (Some s) gz) = None \<and>
   fst (request compress (OpenGeminiClient new_session host port username password database (Some s) gz)
          url method data params code header_arg) = Inl AttributeError"
  by (simp add: OpenGeminiClient_def request_def Let_def split: header_arg.split)

end
